theory Spec2Isabelle
  imports Complex_Main "HOL-Library.AList"
begin

section \<open>Host editor values\<close>

text \<open>
  The cursor manager of \<^verbatim>\<open>src/cursor_manager.ts\<close> works on values of the host editor's
  API: positions, ranges, selections and text editors. Lines and characters are the
  non-negative numbers the host's \<^verbatim>\<open>Position\<close> accepts, so they are \<open>nat\<close> here.
\<close>

datatype position = Position (line: nat) (character: nat)

definition isBefore :: "position \<Rightarrow> position \<Rightarrow> bool" where
  "isBefore p other =
     (if line p < line other then True
      else if line other < line p then False
      else character p < character other)"

definition isEqual :: "position \<Rightarrow> position \<Rightarrow> bool" where
  "isEqual p other = (line p = line other \<and> character p = character other)"

datatype range = MkRange (start: position) (end': position)

text \<open>\<^verbatim>\<open>new Range(a, b)\<close> orders its two ends.\<close>

definition new_Range :: "position \<Rightarrow> position \<Rightarrow> range" where
  "new_Range a b = (if isBefore a b then MkRange a b else MkRange b a)"

datatype selection = MkSelection (anchor: position) (active: position)

text \<open>\<^verbatim>\<open>new Selection(anchorLine, anchorCharacter, activeLine, activeCharacter)\<close>\<close>

definition new_Selection :: "nat \<Rightarrow> nat \<Rightarrow> nat \<Rightarrow> nat \<Rightarrow> selection" where
  "new_Selection anchorLine anchorCharacter activeLine activeCharacter =
     MkSelection (Position anchorLine anchorCharacter) (Position activeLine activeCharacter)"

text \<open>A selection is a range: the one spanned by its anchor and its active end.\<close>

definition as_range :: "selection \<Rightarrow> range" where
  "as_range s = new_Range (anchor s) (active s)"

text \<open>\<^verbatim>\<open>Range.contains\<close>, for a position and for a range (both of its ends).\<close>

definition contains_position :: "range \<Rightarrow> position \<Rightarrow> bool" where
  "contains_position r p =
     (if isBefore p (start r) then False
      else if isBefore (end' r) p then False
      else True)"

definition contains :: "range \<Rightarrow> range \<Rightarrow> bool" where
  "contains r other = (contains_position r (start other) \<and> contains_position r (end' other))"

datatype TextEditorRevealType = Default | InCenter | InCenterIfOutsideViewport | AtTop

datatype TextEditorCursorStyle = Line | Block | Underline | LineThin | BlockOutline | UnderlineThin

datatype TextEditorSelectionChangeKind = Keyboard | Mouse | Command

text \<open>
  A text editor object: its document (by identity), its view column, its selections, the
  ranges the host shows, and \<^verbatim>\<open>options.cursorStyle\<close>. The visible ranges are owned by the
  host: the cursor manager reads them and never writes them.
\<close>

record text_editor =
  document :: nat
  viewColumn :: "nat option"
  selections :: "selection list"
  visibleRanges :: "range list"
  cursorStyle :: TextEditorCursorStyle

text \<open>
  The host window: the editor objects by reference, the visible ones in the host's order
  and the focused one.
\<close>

record window_state =
  editors :: "nat \<Rightarrow> text_editor"
  visibleTextEditors :: "nat list"
  activeTextEditor :: "nat option"

section \<open>Effects\<close>

text \<open>
  Every call the cursor manager makes on a collaborator (logger, buffer manager, change
  manager, RPC client, editor) is recorded, in order, as an effect. A request of an RPC
  batch is a method name with its arguments.
\<close>

datatype rpc_value = Num int | Str string | Arr "rpc_value list"

type_synonym request = "string \<times> rpc_value list"

datatype log_message =
    ReceivedCursorUpdate nat nat nat
  | NoEditorForWinId nat
  | SelectionChanged
  | WaitingForLayoutCompletion
  | WaitingForDocumentChangeCompletion
  | SelectionInfo "TextEditorSelectionChangeKind option" "nat option" nat nat bool
  | ProcessingMultiSelection "nat option"
  | StartingVisualModeFrom int int
  | UpdatingCursorPos nat int int
  | UpdatingCursorPosJump nat int int bool
  | UpdatingCursorInEditor "nat option" nat nat

datatype effect =
    LogDebug log_message
  | LogWarn log_message
  | WaitForLayoutSync
  | GetDocumentChangeCompletionLock nat
  | GetWinIdForTextEditor nat
  | GetGridIdForWinId nat
  | GetEditorFromWinId nat
  | CallAtomic "request list"
  | RevealRange range TextEditorRevealType
  | QueueUpdate nat nat nat

datatype js_error = TypeError

datatype outcome = Returned | Threw js_error

section \<open>The cursor renderer: \<^verbatim>\<open>updateCursorPosInEditor\<close>\<close>

text \<open>
  Lines 187 to 223. The editor's selections are replaced before the primary visible range
  is dereferenced, so an editor without a visible range gets the new selection and the
  call then throws. \<^verbatim>\<open>visibleLines / 2\<close> is a division of numbers, not of integers: it
  is taken in the reals.
\<close>

definition updateCursorPosInEditor ::
    "text_editor \<Rightarrow> nat \<Rightarrow> nat \<Rightarrow> text_editor \<times> effect list \<times> outcome" where
  "updateCursorPosInEditor editor newLine newCol =
     (let logged = LogDebug (UpdatingCursorInEditor (viewColumn editor) newLine newCol);
          revealCursor = new_Selection newLine newCol newLine newCol;
          editor' = editor\<lparr>selections := [revealCursor]\<rparr>
      in case visibleRanges editor of
           [] \<Rightarrow> (editor', [logged], Threw TypeError)
         | visibleRange # _ \<Rightarrow>
             let visibleLines = int (line (end' visibleRange)) - int (line (start visibleRange)) in
             if contains visibleRange (as_range revealCursor) then
               (editor',
                [logged, RevealRange (new_Range (active revealCursor) (active revealCursor)) Default],
                Returned)
             else if line (active revealCursor) < line (start visibleRange) then
               let revealType =
                     (if real_of_int (int (line (start visibleRange)) - int (line (active revealCursor)))
                           \<ge> real_of_int visibleLines / 2
                      then Default else AtTop)
               in (editor',
                   [logged, RevealRange (new_Range (active revealCursor) (active revealCursor)) revealType],
                   Returned)
             else if line (active revealCursor) > line (end' visibleRange) then
               let revealType =
                     (if real_of_int (int (line (active revealCursor)) - int (line (end' visibleRange)))
                           \<ge> real_of_int visibleLines / 2
                      then InCenter else Default)
               in (editor',
                   [logged, RevealRange (new_Range (active revealCursor) (active revealCursor)) revealType],
                   Returned)
             else (editor', [logged], Returned))"

text \<open>The reveal requests among a list of effects, in order.\<close>

fun reveals :: "effect list \<Rightarrow> (range \<times> TextEditorRevealType) list" where
  "reveals [] = []"
| "reveals (RevealRange r t # es) = (r, t) # reveals es"
| "reveals (_ # es) = reveals es"

subsection \<open>The reveal policy in the specification's words\<close>

text \<open>
  The specification names four reveal actions. On the host, the "jump to default position"
  reveal and the "default" reveal are the same reveal type.
\<close>

datatype reveal_decision = DefaultReveal | JumpToDefaultPosition | RevealAtTop | CenterReveal

fun revealTypeOf :: "reveal_decision \<Rightarrow> TextEditorRevealType" where
  "revealTypeOf DefaultReveal = Default"
| "revealTypeOf JumpToDefaultPosition = Default"
| "revealTypeOf RevealAtTop = AtTop"
| "revealTypeOf CenterReveal = InCenter"

text \<open>The target point lies within \<open>[s, e]\<close>, points ordered by line and then by character.\<close>

definition lies_within :: "position \<Rightarrow> position \<Rightarrow> position \<Rightarrow> bool" where
  "lies_within s e target =
     ((line s < line target \<or> (line s = line target \<and> character s \<le> character target)) \<and>
      (line target < line e \<or> (line target = line e \<and> character target \<le> character e)))"

text \<open>
  The reference: visible range \<open>[s, e]\<close>, height \<open>h = e - s\<close> in lines. The specification
  gives three cases; it says nothing of a target on a visible line outside the range's
  characters, which is \<open>None\<close> here.
\<close>

definition reveal_reference :: "position \<Rightarrow> position \<Rightarrow> position \<Rightarrow> reveal_decision option" where
  "reveal_reference s e target =
     (let h = real (line e) - real (line s) in
      if lies_within s e target then Some DefaultReveal
      else if line target < line s then
        (if real (line s) - real (line target) \<ge> h / 2
         then Some JumpToDefaultPosition else Some RevealAtTop)
      else if line target > line e then
        (if real (line target) - real (line e) \<ge> h / 2
         then Some CenterReveal else Some DefaultReveal)
      else None)"

section \<open>Collaborators\<close>

text \<open>
  What the mode manager, the settings and the buffer manager answer when the cursor manager
  asks. A window, grid or editor that is not bound is \<open>None\<close> (\<^verbatim>\<open>undefined\<close>). One run of
  a handler asks each of them at most once, so one record of answers describes a run.
\<close>

record collaborators =
  isInsertMode :: bool
  isVisualMode :: bool
  mouseSelectionEnabled :: bool
  getEditorFromWinId :: "nat \<Rightarrow> nat option"
  getWinIdForTextEditor :: "nat \<Rightarrow> nat option"
  getGridIdForWinId :: "nat \<Rightarrow> nat option"

text \<open>
  The two functions the handler imports from \<^verbatim>\<open>./utils\<close>. That module is not among the
  sources, so the handler takes them as parameters: both return the engine's
  \<^verbatim>\<open>[line, col]\<close>, the first for a position of an editor, the second for an editor.
\<close>

record utils =
  editorPositionToNeovimPosition :: "text_editor \<Rightarrow> position \<Rightarrow> int \<times> int"
  getNeovimCursorPosFromEditor :: "text_editor \<Rightarrow> int \<times> int"

text \<open>
  Modelled from the spec: \<^verbatim>\<open>editorPositionToNeovimPosition\<close> of \<^verbatim>\<open>./utils\<close>, which is missing
  from the sources. The specification's translator maps the host's zero-based line and
  character to the engine's one-based line and the same column; its examples send (2, 3)
  to [3, 3] and (1, 5) to [2, 5].
\<close>

definition spec_editorPositionToNeovimPosition :: "text_editor \<Rightarrow> position \<Rightarrow> int \<times> int" where
  "spec_editorPositionToNeovimPosition editor p = (int (line p) + 1, int (character p))"

text \<open>
  The module \<^verbatim>\<open>./utils\<close> of the worked examples. Its position translator is the one
  modelled from the spec above. \<^verbatim>\<open>getNeovimCursorPosFromEditor\<close> is not among the sources
  and the specification does not describe it: like a collaborator it is given by what it
  answers, here the engine position of (2, 3), the cursor of the worked example for a
  collapsed selection. The general statements hold for any translator and any helper.
\<close>

definition spec_utils :: utils where
  "spec_utils =
     \<lparr>editorPositionToNeovimPosition = spec_editorPositionToNeovimPosition,
      getNeovimCursorPosFromEditor =
        (\<lambda>editor. spec_editorPositionToNeovimPosition editor (Position 2 3))\<rparr>"

section \<open>The selection change handler: \<^verbatim>\<open>onSelectionChanged\<close>\<close>

datatype selection_change_event =
  TextEditorSelectionChangeEvent
    (textEditor: nat)
    (kind: "TextEditorSelectionChangeKind option")
    (selections_ev: "selection list")

text \<open>\<^verbatim>\<open>xs.slice(-1)[0]\<close>: the last element, \<^verbatim>\<open>undefined\<close> for an empty array.\<close>

definition slice_last :: "'a list \<Rightarrow> 'a option" where
  "slice_last xs = (if xs = [] then None else Some (last xs))"

text \<open>The request \<^verbatim>\<open>["nvim_win_set_cursor", [winId, cursorPos]]\<close>.\<close>

definition set_cursor_request :: "nat \<Rightarrow> int \<times> int \<Rightarrow> request" where
  "set_cursor_request winId cursorPos =
     (''nvim_win_set_cursor'', [Num (int winId), Arr [Num (fst cursorPos), Num (snd cursorPos)]])"

text \<open>
  Lines 134 to 160: a mouse selection is forwarded. The visual mode gesture is composed
  only when the engine is not in visual mode and the grid id is truthy (bound and not 0).
  The press carries the translated line minus one: \<^verbatim>\<open>nvim_input_mouse\<close> is zero based.
\<close>

definition forwardMouseSelection ::
    "utils \<Rightarrow> collaborators \<Rightarrow> window_state \<Rightarrow> selection_change_event \<Rightarrow> nat \<Rightarrow> selection
       \<Rightarrow> effect list \<times> outcome" where
  "forwardMouseSelection u c w e winId first =
     (let grid = getGridIdForWinId c winId;
          asked = [GetGridIdForWinId winId, LogDebug (ProcessingMultiSelection grid)];
          mouseClickPos = editorPositionToNeovimPosition u (editors w (textEditor e)) (anchor first);
          gesture =
            (case grid of
               None \<Rightarrow> None
             | Some g \<Rightarrow>
                 if \<not> isVisualMode c \<and> g \<noteq> 0 then
                   Some [(''nvim_input_mouse'',
                            [Str ''left'', Str ''press'', Str [], Num (int g),
                             Num (fst mouseClickPos - 1), Num (snd mouseClickPos)]),
                         (''nvim_input'', [Str ''v''])]
                 else None);
          started =
            (case gesture of
               None \<Rightarrow> []
             | Some _ \<Rightarrow> [LogDebug (StartingVisualModeFrom (fst mouseClickPos) (snd mouseClickPos))]);
          requests = (case gesture of None \<Rightarrow> [] | Some rs \<Rightarrow> rs)
      in case slice_last (selections_ev e) of
           None \<Rightarrow> (asked @ started, Returned)
         | Some lastSelection \<Rightarrow>
             let cursorPos =
                   editorPositionToNeovimPosition u (editors w (textEditor e)) (active lastSelection)
             in (asked @ started @
                 [LogDebug (UpdatingCursorPos winId (fst cursorPos) (snd cursorPos)),
                  CallAtomic (requests @ [set_cursor_request winId cursorPos])],
                 Returned))"

text \<open>Lines 163 to 180: a single collapsed selection moves the engine's cursor.\<close>

definition forwardCursor ::
    "utils \<Rightarrow> window_state \<Rightarrow> selection_change_event \<Rightarrow> nat \<Rightarrow> effect list \<times> outcome" where
  "forwardCursor u w e winId =
     (let createJumpEntry =
            ((kind e = None \<or> kind e = Some Command) \<and> Some (textEditor e) = activeTextEditor w);
          cursorPos = getNeovimCursorPosFromEditor u (editors w (textEditor e));
          requests =
            [set_cursor_request winId cursorPos] @
            (if createJumpEntry
             then [(''nvim_call_function'', [Str ''VSCodeStoreJumpForWin'', Arr [Num (int winId)]])]
             else [])
      in ([LogDebug (UpdatingCursorPosJump winId (fst cursorPos) (snd cursorPos) createJumpEntry),
           CallAtomic requests],
          Returned))"

text \<open>
  Lines 104 to 182. The two awaits are recorded as effects; the run goes on after them.
  \<^verbatim>\<open>selections[0].active\<close> throws on an event without selections. A window id is used
  when it is truthy: bound and not 0.
\<close>

definition onSelectionChanged ::
    "utils \<Rightarrow> collaborators \<Rightarrow> window_state \<Rightarrow> selection_change_event \<Rightarrow> effect list \<times> outcome" where
  "onSelectionChanged u c w e =
     (if isInsertMode c then ([], Returned)
      else
        let waited =
              [LogDebug SelectionChanged,
               LogDebug WaitingForLayoutCompletion,
               WaitForLayoutSync,
               LogDebug WaitingForDocumentChangeCompletion,
               GetDocumentChangeCompletionLock (document (editors w (textEditor e))),
               GetWinIdForTextEditor (textEditor e)];
            winId = getWinIdForTextEditor c (textEditor e)
        in case selections_ev e of
             [] \<Rightarrow> (waited, Threw TypeError)
           | first # _ \<Rightarrow>
               let cursor = active first;
                   logged = waited @
                     [LogDebug (SelectionInfo (kind e) winId (line cursor) (character cursor)
                        (length (selections_ev e) > 1))]
               in (case winId of
                     None \<Rightarrow> (logged, Returned)
                   | Some winId' \<Rightarrow>
                       if winId' = 0 then (logged, Returned)
                       else if length (selections_ev e) > 1 \<or> \<not> isEqual (active first) (anchor first) then
                         (if kind e \<noteq> Some Mouse \<or> \<not> mouseSelectionEnabled c then (logged, Returned)
                          else (case forwardMouseSelection u c w e winId' first of
                                  (effs, out) \<Rightarrow> (logged @ effs, out)))
                       else (case forwardCursor u w e winId' of
                               (effs, out) \<Rightarrow> (logged @ effs, out))))"

text \<open>The RPC batches sent among a list of effects, in order.\<close>

fun callAtomicBatches :: "effect list \<Rightarrow> request list list" where
  "callAtomicBatches [] = []"
| "callAtomicBatches (CallAtomic rs # es) = rs # callAtomicBatches es"
| "callAtomicBatches (_ # es) = callAtomicBatches es"

section \<open>The redraw dispatcher: \<^verbatim>\<open>handleRedrawBatch\<close>\<close>

text \<open>
  The cursor manager's own state: the subscriptions it disposes of and the cursor mode
  mappings.
\<close>

datatype disposable = Disposable (disposed: bool)

datatype CursorInfo = CursorInfo (cursorShape: string)

record cursor_manager =
  disposables :: "disposable list"
  cursorModes :: "string \<rightharpoonup> CursorInfo"

text \<open>The constructor subscribes to the host's selection changes; the map starts empty.\<close>

definition new_CursorManager :: cursor_manager where
  "new_CursorManager = \<lparr>disposables = [Disposable False], cursorModes = Map.empty\<rparr>"

text \<open>Lines 49 to 51.\<close>

definition dispose :: "cursor_manager \<Rightarrow> cursor_manager" where
  "dispose m = m\<lparr>disposables := map (\<lambda>d. Disposable True) (disposables m)\<rparr>"

text \<open>
  The events of a batch, by name, with the arguments the source casts them to. An event
  carries a list of argument tuples; \<^verbatim>\<open>mode_info_set\<close> and \<^verbatim>\<open>mode_change\<close> read the first
  (\<^verbatim>\<open>args[0] || []\<close>).
\<close>

datatype win_viewport =
  WinViewport (grid: nat) (win: nat) (topline: nat) (botline: nat) (curline: nat) (curcol: nat)

datatype mode_info = ModeInfo (name: "string option") (cursor_shape: "string option")

datatype redraw_event =
    Win_viewport "win_viewport list"
  | Mode_info_set "(bool \<times> mode_info list) list"
  | Mode_change "(string \<times> nat) list"
  | Other_event string

text \<open>Lines 225 to 239.\<close>

definition styleOfShape :: "string \<Rightarrow> TextEditorCursorStyle" where
  "styleOfShape shape =
     (if shape = ''block'' then Block
      else if shape = ''horizontal'' then Underline
      else Line)"

definition updateCursorStyle :: "cursor_manager \<Rightarrow> window_state \<Rightarrow> string \<Rightarrow> window_state" where
  "updateCursorStyle m w modeName =
     (case cursorModes m modeName of
        None \<Rightarrow> w
      | Some modeConf \<Rightarrow>
          w\<lparr>editors :=
              fold (\<lambda>editor es. es(editor := (es editor)\<lparr>cursorStyle := styleOfShape (cursorShape modeConf)\<rparr>))
                (visibleTextEditors w) (editors w)\<rparr>)"

text \<open>
  The state of the scan of lines 55 to 84: the manager, the host window and the window
  cursor updates staged so far. The staged updates are a JavaScript \<^verbatim>\<open>Map\<close>: setting a
  key that is present replaces its value in place, a new key goes to the end, and the
  iteration follows that order.
\<close>

record scan_state =
  manager :: cursor_manager
  window :: window_state
  winCursorsUpdates :: "(nat \<times> nat \<times> nat) list"

definition stageViewport :: "win_viewport \<Rightarrow> (nat \<times> nat \<times> nat) list \<Rightarrow> (nat \<times> nat \<times> nat) list" where
  "stageViewport v staged = AList.update (win v) (curline v, curcol v) staged"

text \<open>A mode without a name or without a cursor shape (missing or empty) is skipped.\<close>

definition setCursorMode :: "mode_info \<Rightarrow> cursor_manager \<Rightarrow> cursor_manager" where
  "setCursorMode mode m =
     (case (name mode, cursor_shape mode) of
        (Some n, Some shape) \<Rightarrow>
          if n = [] \<or> shape = [] then m
          else m\<lparr>cursorModes := (cursorModes m)(n \<mapsto> CursorInfo shape)\<rparr>
      | _ \<Rightarrow> m)"

text \<open>
  One event of the scan. A \<^verbatim>\<open>mode_info_set\<close> without an argument tuple has no mode list
  to iterate, and the loop over it throws.
\<close>

fun scanEvent :: "redraw_event \<Rightarrow> scan_state \<Rightarrow> scan_state \<times> outcome" where
  "scanEvent (Win_viewport args) st =
     (st\<lparr>winCursorsUpdates := fold stageViewport args (winCursorsUpdates st)\<rparr>, Returned)"
| "scanEvent (Mode_info_set args) st =
     (case args of
        [] \<Rightarrow> (st, Threw TypeError)
      | (_, modes) # _ \<Rightarrow> (st\<lparr>manager := fold setCursorMode modes (manager st)\<rparr>, Returned))"
| "scanEvent (Mode_change args) st =
     (case args of
        [] \<Rightarrow> (st, Returned)
      | (newModeName, _) # _ \<Rightarrow>
          (st\<lparr>window := updateCursorStyle (manager st) (window st) newModeName\<rparr>, Returned))"
| "scanEvent (Other_event _) st = (st, Returned)"

fun scanBatch :: "redraw_event list \<Rightarrow> scan_state \<Rightarrow> scan_state \<times> outcome" where
  "scanBatch [] st = (st, Returned)"
| "scanBatch (ev # evs) st =
     (case scanEvent ev st of
        (st', Returned) \<Rightarrow> scanBatch evs st'
      | (st', Threw err) \<Rightarrow> (st', Threw err))"

text \<open>
  Lines 85 to 101: every staged update, in order. An unbound window is logged and skipped.
  For a bound one the change lock of the editor's document is requested and the update is
  queued behind it: \<open>QueueUpdate editor line col\<close> stands for the pending call of
  \<^verbatim>\<open>updateCursorPosInEditor(editor, line, col)\<close>.
\<close>

fun scheduleUpdates :: "collaborators \<Rightarrow> window_state \<Rightarrow> (nat \<times> nat \<times> nat) list \<Rightarrow> effect list" where
  "scheduleUpdates c w [] = []"
| "scheduleUpdates c w ((winId, cursorPos) # rest) =
     [LogDebug (ReceivedCursorUpdate winId (fst cursorPos) (snd cursorPos)),
      GetEditorFromWinId winId] @
     (case getEditorFromWinId c winId of
        None \<Rightarrow> [LogWarn (NoEditorForWinId winId)]
      | Some editor \<Rightarrow>
          [GetDocumentChangeCompletionLock (document (editors w editor)),
           QueueUpdate editor (fst cursorPos) (snd cursorPos)]) @
     scheduleUpdates c w rest"

text \<open>Lines 53 to 102. A throw in the scan leaves the staged updates unscheduled.\<close>

definition handleRedrawBatch ::
    "collaborators \<Rightarrow> cursor_manager \<Rightarrow> window_state \<Rightarrow> redraw_event list
       \<Rightarrow> cursor_manager \<times> window_state \<times> effect list \<times> outcome" where
  "handleRedrawBatch c m w batch =
     (case scanBatch batch \<lparr>manager = m, window = w, winCursorsUpdates = []\<rparr> of
        (st, Threw err) \<Rightarrow> (manager st, window st, [], Threw err)
      | (st, Returned) \<Rightarrow>
          (manager st, window st, scheduleUpdates c (window st) (winCursorsUpdates st), Returned))"

text \<open>A queued update, once its lock is granted, runs on the editor object.\<close>

definition runQueuedUpdate ::
    "window_state \<Rightarrow> nat \<Rightarrow> nat \<Rightarrow> nat \<Rightarrow> window_state \<times> effect list \<times> outcome" where
  "runQueuedUpdate w editor l c =
     (case updateCursorPosInEditor (editors w editor) l c of
        (editor', effs, out) \<Rightarrow> (w\<lparr>editors := (editors w)(editor := editor')\<rparr>, effs, out))"

text \<open>The queued updates and the warnings among a list of effects, in order.\<close>

fun queuedUpdates :: "effect list \<Rightarrow> (nat \<times> nat \<times> nat) list" where
  "queuedUpdates [] = []"
| "queuedUpdates (QueueUpdate editor l c # es) = (editor, l, c) # queuedUpdates es"
| "queuedUpdates (_ # es) = queuedUpdates es"

fun warnings :: "effect list \<Rightarrow> log_message list" where
  "warnings [] = []"
| "warnings (LogWarn msg # es) = msg # warnings es"
| "warnings (_ # es) = warnings es"

text \<open>
  The viewport tuples of a batch in arrival order, and the cursor of the last one that
  names a window.
\<close>

fun viewports :: "redraw_event list \<Rightarrow> win_viewport list" where
  "viewports [] = []"
| "viewports (Win_viewport args # evs) = args @ viewports evs"
| "viewports (_ # evs) = viewports evs"

definition lastCursorFor :: "nat \<Rightarrow> win_viewport list \<Rightarrow> (nat \<times> nat) option" where
  "lastCursorFor winId vs =
     (case rev (filter (\<lambda>v. win v = winId) vs) of
        [] \<Rightarrow> None
      | v # _ \<Rightarrow> Some (curline v, curcol v))"

section \<open>Example data\<close>

text \<open>
  An editor showing lines 10 to 30 with its cursor at (2, 3), a host window in which every
  reference is that editor and editor 1 is visible and focused, and collaborators that
  bind window 1000 (grid 2) to editor 1 and window 1002 (grid 4) to editor 2; window 1001
  is unbound.
\<close>

definition example_editor :: text_editor where
  "example_editor =
     \<lparr>document = 7, viewColumn = Some 1, selections = [new_Selection 2 3 2 3],
      visibleRanges = [MkRange (Position 10 0) (Position 30 0)], cursorStyle = Line\<rparr>"

definition example_window :: window_state where
  "example_window =
     \<lparr>editors = (\<lambda>_. example_editor), visibleTextEditors = [1], activeTextEditor = Some 1\<rparr>"

definition example_collaborators :: collaborators where
  "example_collaborators =
     \<lparr>isInsertMode = False, isVisualMode = False, mouseSelectionEnabled = True,
      getEditorFromWinId =
        (\<lambda>winId. if winId = 1000 then Some 1 else if winId = 1002 then Some 2 else None),
      getWinIdForTextEditor =
        (\<lambda>editor. if editor = 1 then Some 1000 else if editor = 2 then Some 1002 else None),
      getGridIdForWinId =
        (\<lambda>winId. if winId = 1000 then Some 2 else if winId = 1002 then Some 4 else None)\<rparr>"

section \<open>Properties of the cursor renderer\<close>

lemma contains_collapsed:
  "contains r (as_range (new_Selection l c l c)) = lies_within (start r) (end' r) (Position l c)"
  by (auto simp: contains_def as_range_def new_Selection_def new_Range_def contains_position_def
      isBefore_def lies_within_def)

lemma new_Range_same: "new_Range p p = MkRange p p"
  by (simp add: new_Range_def isBefore_def)

lemma active_new_Selection: "active (new_Selection al ac l c) = Position l c"
  by (simp add: new_Selection_def)

lemma isEqual_iff: "isEqual p q = (p = q)"
  by (cases p; cases q) (simp add: isEqual_def)

lemma reveals_of_update:
  assumes "visibleRanges editor = visibleRange # others"
  shows "reveals (fst (snd (updateCursorPosInEditor editor l c))) =
           (case reveal_reference (start visibleRange) (end' visibleRange) (Position l c) of
              None \<Rightarrow> []
            | Some d \<Rightarrow> [(MkRange (Position l c) (Position l c), revealTypeOf d)])"
  using assms
  by (simp add: updateCursorPosInEditor_def Let_def contains_collapsed new_Range_same
      active_new_Selection reveal_reference_def)

lemma reveal_reference_boundary_above:
  assumes "l < line s" and "2 * (int (line s) - int l) = int (line e) - int (line s)"
  shows "reveal_reference s e (Position l c) = Some JumpToDefaultPosition"
proof -
  have "\<not> lies_within s e (Position l c)"
    using assms(1) by (simp add: lies_within_def)
  moreover have "real (line s) - real l \<ge> (real (line e) - real (line s)) / 2"
  proof -
    have "real_of_int (2 * (int (line s) - int l)) = real_of_int (int (line e) - int (line s))"
      using assms(2) by (rule arg_cong)
    then show ?thesis by simp
  qed
  ultimately show ?thesis
    using assms(1) by (simp add: reveal_reference_def)
qed

lemma reveal_reference_boundary_below:
  assumes "line e < l" and "2 * (int l - int (line e)) = int (line e) - int (line s)"
  shows "reveal_reference s e (Position l c) = Some CenterReveal"
proof -
  have "\<not> lies_within s e (Position l c)"
    using assms(1) by (simp add: lies_within_def)
  moreover have "\<not> l < line s"
  proof -
    have "int (line e) < int l" using assms(1) by simp
    then have "int (line s) < int l" using assms(2) by presburger
    then show ?thesis by simp
  qed
  moreover have "real l - real (line e) \<ge> (real (line e) - real (line s)) / 2"
  proof -
    have "real_of_int (2 * (int l - int (line e))) = real_of_int (int (line e) - int (line s))"
      using assms(2) by (rule arg_cong)
    then show ?thesis by simp
  qed
  ultimately show ?thesis
    using assms(1) by (simp add: reveal_reference_def)
qed

text \<open>
  The specification's three cases leave one out: a target on the first or the last visible
  line but outside the range's characters. No reveal is issued there.
\<close>

lemma reveal_reference_None_iff:
  "reveal_reference s e target = None \<longleftrightarrow>
     \<not> lies_within s e target \<and> line s \<le> line target \<and> line target \<le> line e"
  by (auto simp: reveal_reference_def Let_def split: if_splits)

text \<open>
  C1. For every editor with a primary visible range \<open>[start, end]\<close> of height
  \<open>h = end - start\<close>, the reveal that \<open>updateCursorPosInEditor\<close> requests for a target is the
  one of the reference: a default reveal when the target point lies within the range; above
  it, the jump to the default position when \<open>start - target \<ge> h / 2\<close> and the reveal at top
  otherwise; below it, the centred reveal when \<open>target - end \<ge> h / 2\<close> and the default
  reveal otherwise. A target exactly \<open>h / 2\<close> lines away takes the larger jump.
\<close>

theorem updateCursorPosInEditor_reveal_reference:
  assumes "visibleRanges editor = visibleRange # others"
  shows "reveals (fst (snd (updateCursorPosInEditor editor l c))) =
           (case reveal_reference (start visibleRange) (end' visibleRange) (Position l c) of
              None \<Rightarrow> []
            | Some d \<Rightarrow> [(MkRange (Position l c) (Position l c), revealTypeOf d)]) \<and>
         (l < line (start visibleRange) \<and>
          2 * (int (line (start visibleRange)) - int l) =
            int (line (end' visibleRange)) - int (line (start visibleRange)) \<longrightarrow>
          reveals (fst (snd (updateCursorPosInEditor editor l c))) =
            [(MkRange (Position l c) (Position l c), revealTypeOf JumpToDefaultPosition)]) \<and>
         (line (end' visibleRange) < l \<and>
          2 * (int l - int (line (end' visibleRange))) =
            int (line (end' visibleRange)) - int (line (start visibleRange)) \<longrightarrow>
          reveals (fst (snd (updateCursorPosInEditor editor l c))) =
            [(MkRange (Position l c) (Position l c), revealTypeOf CenterReveal)])"
  using reveals_of_update [OF assms, of l c]
    reveal_reference_boundary_above [of l "start visibleRange" "end' visibleRange" c]
    reveal_reference_boundary_below [of "end' visibleRange" l "start visibleRange" c]
  by simp

theorem updateCursorPosInEditor_reveal_reference_witness:
  "visibleRanges example_editor = [MkRange (Position 10 0) (Position 30 0)] \<and>
   reveal_reference (Position 10 0) (Position 30 0) (Position 0 0) = Some JumpToDefaultPosition \<and>
   reveals (fst (snd (updateCursorPosInEditor example_editor 0 0))) =
     [(MkRange (Position 0 0) (Position 0 0), Default)] \<and>
   reveal_reference (Position 10 0) (Position 30 0) (Position 1 0) = Some RevealAtTop \<and>
   reveals (fst (snd (updateCursorPosInEditor example_editor 1 0))) =
     [(MkRange (Position 1 0) (Position 1 0), AtTop)] \<and>
   reveals (fst (snd (updateCursorPosInEditor example_editor 40 0))) =
     [(MkRange (Position 40 0) (Position 40 0), InCenter)] \<and>
   reveals (fst (snd (updateCursorPosInEditor example_editor 39 0))) =
     [(MkRange (Position 39 0) (Position 39 0), Default)] \<and>
   reveals (fst (snd (updateCursorPosInEditor example_editor 20 4))) =
     [(MkRange (Position 20 4) (Position 20 4), Default)]"
proof -
  have vr: "visibleRanges example_editor = MkRange (Position 10 0) (Position 30 0) # []"
    by (simp add: example_editor_def)
  show ?thesis
    using vr
      updateCursorPosInEditor_reveal_reference [OF vr, of 0 0]
      updateCursorPosInEditor_reveal_reference [OF vr, of 1 0]
      updateCursorPosInEditor_reveal_reference [OF vr, of 40 0]
      updateCursorPosInEditor_reveal_reference [OF vr, of 39 0]
      updateCursorPosInEditor_reveal_reference [OF vr, of 20 4]
    by (simp add: reveal_reference_def lies_within_def)
qed

text \<open>
  C9. \<open>updateCursorPosInEditor\<close> is idempotent: applied a second time with the same line
  and column to the editor it has just updated, it leaves the same editor, with the single
  collapsed selection at that position, and makes the same requests, the reveal among them.
  A reveal is a request to the host; the call does not write the visible ranges it reads.
\<close>

theorem updateCursorPosInEditor_idempotent:
  "updateCursorPosInEditor (fst (updateCursorPosInEditor editor l c)) l c =
     updateCursorPosInEditor editor l c \<and>
   selections (fst (updateCursorPosInEditor editor l c)) =
     [MkSelection (Position l c) (Position l c)]"
  by (simp add: updateCursorPosInEditor_def Let_def new_Selection_def split: list.splits)

theorem updateCursorPosInEditor_idempotent_witness:
  "updateCursorPosInEditor (fst (updateCursorPosInEditor example_editor 100 2)) 100 2 =
     (example_editor\<lparr>selections := [MkSelection (Position 100 2) (Position 100 2)]\<rparr>,
      [LogDebug (UpdatingCursorInEditor (Some 1) 100 2),
       RevealRange (MkRange (Position 100 2) (Position 100 2)) InCenter],
      Returned)"
proof -
  have "updateCursorPosInEditor example_editor 100 2 =
     (example_editor\<lparr>selections := [MkSelection (Position 100 2) (Position 100 2)]\<rparr>,
      [LogDebug (UpdatingCursorInEditor (Some 1) 100 2),
       RevealRange (MkRange (Position 100 2) (Position 100 2)) InCenter],
      Returned)"
    by (simp add: updateCursorPosInEditor_def Let_def new_Selection_def example_editor_def
        contains_def contains_position_def as_range_def new_Range_def isBefore_def)
  with updateCursorPosInEditor_idempotent [of example_editor 100 2] show ?thesis by simp
qed

text \<open>A queued update leaves its editor with the single collapsed selection it carries.\<close>

lemma runQueuedUpdate_selections:
  "selections (editors (fst (runQueuedUpdate w editor l c)) editor) =
     [MkSelection (Position l c) (Position l c)]"
  by (simp add: runQueuedUpdate_def updateCursorPosInEditor_def Let_def new_Selection_def
      split: list.splits)

section \<open>Properties of the selection change handler\<close>

lemma callAtomicBatches_append:
  "callAtomicBatches (xs @ ys) = callAtomicBatches xs @ callAtomicBatches ys"
  by (induction xs rule: callAtomicBatches.induct) simp_all

text \<open>
  Outside insert mode, with a truthy window id and at least one selection, the handler
  reaches the branch on the selection's shape.
\<close>

lemma onSelectionChanged_reached:
  assumes "\<not> isInsertMode c"
    and "getWinIdForTextEditor c (textEditor e) = Some winId"
    and "winId \<noteq> 0"
    and "selections_ev e = first # rest"
  shows "callAtomicBatches (fst (onSelectionChanged u c w e)) =
           (if rest \<noteq> [] \<or> active first \<noteq> anchor first then
              (if kind e \<noteq> Some Mouse \<or> \<not> mouseSelectionEnabled c then []
               else callAtomicBatches (fst (forwardMouseSelection u c w e winId first)))
            else callAtomicBatches (fst (forwardCursor u w e winId)))"
  using assms
  by (auto simp: onSelectionChanged_def Let_def isEqual_iff callAtomicBatches_append
      split: prod.splits)

lemma forwardMouseSelection_batches:
  assumes "selections_ev e = first # rest"
  shows "callAtomicBatches (fst (forwardMouseSelection u c w e winId first)) =
           [(case getGridIdForWinId c winId of
               None \<Rightarrow> []
             | Some g \<Rightarrow>
                 if \<not> isVisualMode c \<and> g \<noteq> 0 then
                   [(''nvim_input_mouse'',
                       [Str ''left'', Str ''press'', Str [], Num (int g),
                        Num (fst (editorPositionToNeovimPosition u (editors w (textEditor e))
                                    (anchor first)) - 1),
                        Num (snd (editorPositionToNeovimPosition u (editors w (textEditor e))
                                    (anchor first)))]),
                    (''nvim_input'', [Str ''v''])]
                 else []) @
            [set_cursor_request winId
               (editorPositionToNeovimPosition u (editors w (textEditor e))
                  (active (last (first # rest))))]]"
  using assms
  by (simp add: forwardMouseSelection_def Let_def slice_last_def callAtomicBatches_append
      split: option.splits)

text \<open>
  C4. A selection change received while the engine is in insert mode has no effect at all:
  no log entry, no wait for the layout or for the document's change lock, no window id
  looked up and no RPC batch.
\<close>

theorem onSelectionChanged_insert_mode_no_effect:
  assumes "isInsertMode c"
  shows "onSelectionChanged u c w e = ([], Returned)"
  using assms by (simp add: onSelectionChanged_def)

theorem onSelectionChanged_insert_mode_no_effect_witness:
  "isInsertMode (example_collaborators\<lparr>isInsertMode := True\<rparr>) \<and>
   onSelectionChanged spec_utils (example_collaborators\<lparr>isInsertMode := True\<rparr>) example_window
     (TextEditorSelectionChangeEvent 1 (Some Command) [new_Selection 2 3 2 3]) = ([], Returned)"
proof -
  have h: "isInsertMode (example_collaborators\<lparr>isInsertMode := True\<rparr>)" by simp
  from h onSelectionChanged_insert_mode_no_effect [OF h] show ?thesis by simp
qed

text \<open>
  C5. A change to several selections, or to a selection that is not collapsed, whose origin
  is not the mouse, or that arrives while mouse selection forwarding is disabled, sends no
  RPC batch.
\<close>

theorem onSelectionChanged_not_forwarded:
  assumes "selections_ev e = first # rest"
    and "rest \<noteq> [] \<or> active first \<noteq> anchor first"
    and "kind e \<noteq> Some Mouse \<or> \<not> mouseSelectionEnabled c"
  shows "callAtomicBatches (fst (onSelectionChanged u c w e)) = []"
  using assms
  by (auto simp: onSelectionChanged_def Let_def isEqual_iff split: option.splits)

theorem onSelectionChanged_not_forwarded_witness:
  "selections_ev (TextEditorSelectionChangeEvent 1 (Some Keyboard) [new_Selection 0 0 1 5]) =
     new_Selection 0 0 1 5 # [] \<and>
   active (new_Selection 0 0 1 5) \<noteq> anchor (new_Selection 0 0 1 5) \<and>
   mouseSelectionEnabled example_collaborators \<and>
   callAtomicBatches (fst (onSelectionChanged spec_utils example_collaborators example_window
     (TextEditorSelectionChangeEvent 1 (Some Keyboard) [new_Selection 0 0 1 5]))) = []"
proof -
  let ?e = "TextEditorSelectionChangeEvent 1 (Some Keyboard) [new_Selection 0 0 1 5]"
  have sel: "selections_ev ?e = new_Selection 0 0 1 5 # []" by simp
  have shape: "[] \<noteq> ([]::selection list) \<or>
      active (new_Selection 0 0 1 5) \<noteq> anchor (new_Selection 0 0 1 5)"
    by (simp add: new_Selection_def)
  have origin: "kind ?e \<noteq> Some Mouse \<or> \<not> mouseSelectionEnabled example_collaborators" by simp
  from onSelectionChanged_not_forwarded [OF sel shape origin, of spec_utils example_window]
  show ?thesis
    by (simp add: new_Selection_def example_collaborators_def)
qed

text \<open>
  C2, as the code has it. A mouse change to several selections, or to a selection that is
  not collapsed, received outside insert mode with mouse forwarding enabled, a truthy
  window id and a truthy grid id for that window, while the engine is not in visual mode,
  sends exactly one RPC batch: a left press on that grid at the translated anchor of the
  first selection (its line minus one, its column), the key \<open>v\<close>, and the cursor move to
  the translated active end of the last selection.
\<close>

theorem onSelectionChanged_mouse_selection_batch:
  assumes "\<not> isInsertMode c"
    and "getWinIdForTextEditor c (textEditor e) = Some winId"
    and "winId \<noteq> 0"
    and "selections_ev e = first # rest"
    and "rest \<noteq> [] \<or> active first \<noteq> anchor first"
    and "kind e = Some Mouse"
    and "mouseSelectionEnabled c"
    and "\<not> isVisualMode c"
    and "getGridIdForWinId c winId = Some g"
    and "g \<noteq> 0"
  shows "callAtomicBatches (fst (onSelectionChanged u c w e)) =
           [[(''nvim_input_mouse'',
                [Str ''left'', Str ''press'', Str [], Num (int g),
                 Num (fst (editorPositionToNeovimPosition u (editors w (textEditor e))
                             (anchor first)) - 1),
                 Num (snd (editorPositionToNeovimPosition u (editors w (textEditor e))
                             (anchor first)))]),
             (''nvim_input'', [Str ''v'']),
             set_cursor_request winId
               (editorPositionToNeovimPosition u (editors w (textEditor e))
                  (active (last (first # rest))))]]"
proof -
  have "callAtomicBatches (fst (onSelectionChanged u c w e)) =
          callAtomicBatches (fst (forwardMouseSelection u c w e winId first))"
    using assms(5,6,7) by (simp add: onSelectionChanged_reached [OF assms(1-4)])
  then show ?thesis
    using assms(8,9,10) by (simp add: forwardMouseSelection_batches [OF assms(4)])
qed

theorem onSelectionChanged_mouse_selection_batch_witness:
  "callAtomicBatches (fst (onSelectionChanged spec_utils example_collaborators example_window
     (TextEditorSelectionChangeEvent 1 (Some Mouse) [new_Selection 0 0 1 5]))) =
     [[(''nvim_input_mouse'', [Str ''left'', Str ''press'', Str [], Num 2, Num 0, Num 0]),
       (''nvim_input'', [Str ''v'']),
       (''nvim_win_set_cursor'', [Num 1000, Arr [Num 2, Num 5]])]]"
proof -
  let ?e = "TextEditorSelectionChangeEvent 1 (Some Mouse) [new_Selection 0 0 1 5]"
  have h1: "\<not> isInsertMode example_collaborators" by (simp add: example_collaborators_def)
  have h2: "getWinIdForTextEditor example_collaborators (textEditor ?e) = Some 1000"
    by (simp add: example_collaborators_def)
  have h3: "(1000::nat) \<noteq> 0" by simp
  have h4: "selections_ev ?e = new_Selection 0 0 1 5 # []" by simp
  have h5: "[] \<noteq> ([]::selection list) \<or>
      active (new_Selection 0 0 1 5) \<noteq> anchor (new_Selection 0 0 1 5)"
    by (simp add: new_Selection_def)
  have h6: "kind ?e = Some Mouse" by simp
  have h7: "mouseSelectionEnabled example_collaborators" by (simp add: example_collaborators_def)
  have h8: "\<not> isVisualMode example_collaborators" by (simp add: example_collaborators_def)
  have h9: "getGridIdForWinId example_collaborators 1000 = Some 2"
    by (simp add: example_collaborators_def)
  have h10: "(2::nat) \<noteq> 0" by simp
  from onSelectionChanged_mouse_selection_batch
    [OF h1 h2 h3 h4 h5 h6 h7 h8 h9 h10, of spec_utils example_window]
  show ?thesis
    by (simp add: spec_utils_def spec_editorPositionToNeovimPosition_def new_Selection_def
        set_cursor_request_def)
qed

text \<open>
  The same mouse selection, forwarding enabled, window bound, engine not in visual mode:
  without a grid bound to the window the batch is the cursor move alone, and in insert
  mode no batch is sent.
\<close>

theorem onSelectionChanged_mouse_selection_counterexample:
  "\<not> isVisualMode (example_collaborators\<lparr>getGridIdForWinId := \<lambda>_. None\<rparr>) \<and>
   mouseSelectionEnabled (example_collaborators\<lparr>getGridIdForWinId := \<lambda>_. None\<rparr>) \<and>
   getWinIdForTextEditor (example_collaborators\<lparr>getGridIdForWinId := \<lambda>_. None\<rparr>) 1 = Some 1000 \<and>
   callAtomicBatches (fst (onSelectionChanged spec_utils
     (example_collaborators\<lparr>getGridIdForWinId := \<lambda>_. None\<rparr>) example_window
     (TextEditorSelectionChangeEvent 1 (Some Mouse) [new_Selection 0 0 1 5]))) =
     [[(''nvim_win_set_cursor'', [Num 1000, Arr [Num 2, Num 5]])]] \<and>
   \<not> isVisualMode (example_collaborators\<lparr>isInsertMode := True\<rparr>) \<and>
   mouseSelectionEnabled (example_collaborators\<lparr>isInsertMode := True\<rparr>) \<and>
   getWinIdForTextEditor (example_collaborators\<lparr>isInsertMode := True\<rparr>) 1 = Some 1000 \<and>
   callAtomicBatches (fst (onSelectionChanged spec_utils
     (example_collaborators\<lparr>isInsertMode := True\<rparr>) example_window
     (TextEditorSelectionChangeEvent 1 (Some Mouse) [new_Selection 0 0 1 5]))) = []"
  by (simp add: onSelectionChanged_def forwardMouseSelection_def Let_def slice_last_def
      example_collaborators_def example_window_def example_editor_def isEqual_def
      new_Selection_def spec_utils_def spec_editorPositionToNeovimPosition_def
      set_cursor_request_def)

text \<open>
  C10. On the mouse selection path (outside insert mode, truthy window id, mouse origin,
  forwarding enabled), when the engine is not in visual mode and the window has no grid
  bound (or the grid id 0), the press and the key \<open>v\<close> are left out: the one batch sent is
  the cursor move to the translated active end of the last selection.
\<close>

theorem onSelectionChanged_mouse_selection_without_grid:
  assumes "\<not> isInsertMode c"
    and "getWinIdForTextEditor c (textEditor e) = Some winId"
    and "winId \<noteq> 0"
    and "selections_ev e = first # rest"
    and "rest \<noteq> [] \<or> active first \<noteq> anchor first"
    and "kind e = Some Mouse"
    and "mouseSelectionEnabled c"
    and "\<not> isVisualMode c"
    and "getGridIdForWinId c winId = None \<or> getGridIdForWinId c winId = Some 0"
  shows "callAtomicBatches (fst (onSelectionChanged u c w e)) =
           [[set_cursor_request winId
               (editorPositionToNeovimPosition u (editors w (textEditor e))
                  (active (last (first # rest))))]]"
proof -
  have "callAtomicBatches (fst (onSelectionChanged u c w e)) =
          callAtomicBatches (fst (forwardMouseSelection u c w e winId first))"
    using assms(5,6,7) by (simp add: onSelectionChanged_reached [OF assms(1-4)])
  then show ?thesis
    using assms(9) by (auto simp: forwardMouseSelection_batches [OF assms(4)])
qed

theorem onSelectionChanged_mouse_selection_without_grid_witness:
  "callAtomicBatches (fst (onSelectionChanged spec_utils
     (example_collaborators\<lparr>getGridIdForWinId := \<lambda>_. None\<rparr>) example_window
     (TextEditorSelectionChangeEvent 1 (Some Mouse)
        [new_Selection 0 0 0 4, new_Selection 3 1 3 6]))) =
     [[(''nvim_win_set_cursor'', [Num 1000, Arr [Num 4, Num 6]])]]"
proof -
  let ?c = "example_collaborators\<lparr>getGridIdForWinId := \<lambda>_. None\<rparr>"
  let ?e = "TextEditorSelectionChangeEvent 1 (Some Mouse)
              [new_Selection 0 0 0 4, new_Selection 3 1 3 6]"
  have h1: "\<not> isInsertMode ?c" by (simp add: example_collaborators_def)
  have h2: "getWinIdForTextEditor ?c (textEditor ?e) = Some 1000"
    by (simp add: example_collaborators_def)
  have h3: "(1000::nat) \<noteq> 0" by simp
  have h4: "selections_ev ?e = new_Selection 0 0 0 4 # [new_Selection 3 1 3 6]" by simp
  have h5: "[new_Selection 3 1 3 6] \<noteq> [] \<or>
      active (new_Selection 0 0 0 4) \<noteq> anchor (new_Selection 0 0 0 4)"
    by simp
  have h6: "kind ?e = Some Mouse" by simp
  have h7: "mouseSelectionEnabled ?c" by (simp add: example_collaborators_def)
  have h8: "\<not> isVisualMode ?c" by (simp add: example_collaborators_def)
  have h9: "getGridIdForWinId ?c 1000 = None \<or> getGridIdForWinId ?c 1000 = Some 0" by simp
  from onSelectionChanged_mouse_selection_without_grid
    [OF h1 h2 h3 h4 h5 h6 h7 h8 h9, of spec_utils example_window]
  show ?thesis
    by (simp add: spec_utils_def spec_editorPositionToNeovimPosition_def new_Selection_def
        set_cursor_request_def)
qed




section \<open>Properties of the redraw dispatcher\<close>

lemma scheduleUpdates_queued:
  "queuedUpdates (scheduleUpdates c w staged) =
     List.map_filter
       (\<lambda>(winId, l, col). map_option (\<lambda>editor. (editor, l, col)) (getEditorFromWinId c winId))
       staged"
proof (induction staged)
  case Nil
  show ?case by (simp add: map_filter_simps)
next
  case (Cons entry staged)
  obtain winId l col where entry: "entry = (winId, l, col)"
    by (cases entry) auto
  show ?case
    using Cons.IH by (simp add: entry map_filter_simps split: option.splits)
qed

lemma scheduleUpdates_warnings:
  "warnings (scheduleUpdates c w staged) =
     map (\<lambda>(winId, cursorPos). NoEditorForWinId winId)
       (filter (\<lambda>(winId, cursorPos). getEditorFromWinId c winId = None) staged)"
proof (induction staged)
  case Nil
  show ?case by simp
next
  case (Cons entry staged)
  obtain winId cursorPos where entry: "entry = (winId, cursorPos)"
    by (cases entry) auto
  show ?case
    using Cons.IH by (simp add: entry split: option.splits)
qed

lemma scheduleUpdates_queued_iff:
  "(editor, l, col) \<in> set (queuedUpdates (scheduleUpdates c w staged)) \<longleftrightarrow>
     (\<exists>winId. (winId, l, col) \<in> set staged \<and> getEditorFromWinId c winId = Some editor)"
  by (induction staged) (auto split: option.splits)

lemma handleRedrawBatch_scanned:
  assumes "scanBatch batch \<lparr>manager = m, window = w, winCursorsUpdates = []\<rparr> = (st, Returned)"
  shows "handleRedrawBatch c m w batch =
           (manager st, window st, scheduleUpdates c (window st) (winCursorsUpdates st), Returned)"
  using assms by (simp add: handleRedrawBatch_def)

lemma handleRedrawBatch_outcome:
  "snd (snd (snd (handleRedrawBatch c m w batch))) =
     snd (scanBatch batch \<lparr>manager = m, window = w, winCursorsUpdates = []\<rparr>)"
  by (simp add: handleRedrawBatch_def split: prod.splits outcome.splits)

lemma handleRedrawBatch_effects:
  "fst (snd (snd (handleRedrawBatch c m w batch))) =
     (case scanBatch batch \<lparr>manager = m, window = w, winCursorsUpdates = []\<rparr> of
        (st, Returned) \<Rightarrow> scheduleUpdates c (window st) (winCursorsUpdates st)
      | (st, Threw err) \<Rightarrow> [])"
  by (simp add: handleRedrawBatch_def split: prod.splits outcome.splits)

lemma handleRedrawBatch_manager:
  "fst (handleRedrawBatch c m w batch) =
     manager (fst (scanBatch batch \<lparr>manager = m, window = w, winCursorsUpdates = []\<rparr>))"
  by (simp add: handleRedrawBatch_def split: prod.splits outcome.splits)

text \<open>The scan throws only on a \<^verbatim>\<open>mode_info_set\<close> event without its argument tuple.\<close>

lemma scanEvent_completes:
  "ev \<noteq> Mode_info_set [] \<Longrightarrow> snd (scanEvent ev st) = Returned"
  by (cases ev) (auto split: list.splits)

lemma scanBatch_completes:
  "Mode_info_set [] \<notin> set batch \<Longrightarrow> snd (scanBatch batch st) = Returned"
proof (induction batch arbitrary: st)
  case Nil
  show ?case by simp
next
  case (Cons ev evs)
  then have "snd (scanEvent ev st) = Returned"
    by (auto intro: scanEvent_completes)
  then obtain st' where "scanEvent ev st = (st', Returned)"
    by (cases "scanEvent ev st") auto
  with Cons show ?case by simp
qed

text \<open>
  C6. A staged window without a bound editor never makes the batch throw or stop. Whether
  \<open>handleRedrawBatch\<close> returns is decided by the scan alone, which does not consult the
  bindings: it is the same under any two sets of bindings \<open>c\<close> and \<open>c'\<close>. Once the scan has
  returned, every staged window is resolved in order: each bound one has its update queued,
  each unbound one is dropped with the warning that names it.
\<close>

theorem handleRedrawBatch_unbound_window_dropped:
  "queuedUpdates (scheduleUpdates c w staged) =
     List.map_filter
       (\<lambda>(winId, l, col). map_option (\<lambda>editor. (editor, l, col)) (getEditorFromWinId c winId))
       staged \<and>
   warnings (scheduleUpdates c w staged) =
     map (\<lambda>(winId, cursorPos). NoEditorForWinId winId)
       (filter (\<lambda>(winId, cursorPos). getEditorFromWinId c winId = None) staged) \<and>
   snd (snd (snd (handleRedrawBatch c m w batch))) =
     snd (scanBatch batch \<lparr>manager = m, window = w, winCursorsUpdates = []\<rparr>) \<and>
   snd (snd (snd (handleRedrawBatch c m w batch))) =
     snd (snd (snd (handleRedrawBatch c' m w batch))) \<and>
   fst (snd (snd (handleRedrawBatch c m w batch))) =
     (case scanBatch batch \<lparr>manager = m, window = w, winCursorsUpdates = []\<rparr> of
        (st, Returned) \<Rightarrow> scheduleUpdates c (window st) (winCursorsUpdates st)
      | (st, Threw err) \<Rightarrow> [])"
  using scheduleUpdates_queued [of c w staged] scheduleUpdates_warnings [of c w staged]
    handleRedrawBatch_outcome [of c m w batch] handleRedrawBatch_outcome [of c' m w batch]
    handleRedrawBatch_effects [of c m w batch]
  by simp

theorem handleRedrawBatch_unbound_window_dropped_witness:
  "getEditorFromWinId example_collaborators 1001 = None \<and>
   snd (snd (snd (handleRedrawBatch example_collaborators new_CursorManager example_window
     [Win_viewport [WinViewport 2 1000 0 40 5 3, WinViewport 3 1001 0 40 7 0],
      Win_viewport [WinViewport 4 1002 0 20 9 1]]))) = Returned \<and>
   queuedUpdates (fst (snd (snd (handleRedrawBatch example_collaborators new_CursorManager
     example_window
     [Win_viewport [WinViewport 2 1000 0 40 5 3, WinViewport 3 1001 0 40 7 0],
      Win_viewport [WinViewport 4 1002 0 20 9 1]])))) = [(1, 5, 3), (2, 9, 1)] \<and>
   warnings (fst (snd (snd (handleRedrawBatch example_collaborators new_CursorManager
     example_window
     [Win_viewport [WinViewport 2 1000 0 40 5 3, WinViewport 3 1001 0 40 7 0],
      Win_viewport [WinViewport 4 1002 0 20 9 1]])))) = [NoEditorForWinId 1001]"
  using handleRedrawBatch_unbound_window_dropped
    [of example_collaborators example_window "[(1000, 5, 3), (1001, 7, 0), (1002, 9, 1)]"
      new_CursorManager
      "[Win_viewport [WinViewport 2 1000 0 40 5 3, WinViewport 3 1001 0 40 7 0],
        Win_viewport [WinViewport 4 1002 0 20 9 1]]"]
  by (simp add: handleRedrawBatch_def stageViewport_def example_collaborators_def
      map_filter_simps)

subsection \<open>Staging: the last viewport event of a window wins\<close>

lemma lastCursorFor_append:
  "lastCursorFor k (xs @ ys) =
     (case lastCursorFor k ys of None \<Rightarrow> lastCursorFor k xs | Some p \<Rightarrow> Some p)"
  by (simp add: lastCursorFor_def split: list.splits)

lemma lastCursorFor_Cons:
  "lastCursorFor k (v # vs) =
     (case lastCursorFor k vs of
        None \<Rightarrow> (if win v = k then Some (curline v, curcol v) else None)
      | Some p \<Rightarrow> Some p)"
  by (cases "rev (filter (\<lambda>v. win v = k) vs)") (auto simp: lastCursorFor_def)

lemma fold_stageViewport_map_of:
  "map_of (fold stageViewport vs staged) k =
     (case lastCursorFor k vs of None \<Rightarrow> map_of staged k | Some p \<Rightarrow> Some p)"
proof (induction vs arbitrary: staged)
  case Nil
  show ?case by (simp add: lastCursorFor_def)
next
  case (Cons v vs)
  have "map_of (stageViewport v staged) k =
          (if win v = k then Some (curline v, curcol v) else map_of staged k)"
    by (simp add: stageViewport_def update_conv')
  then show ?case
    by (simp add: Cons.IH lastCursorFor_Cons split: option.splits)
qed

lemma fold_stageViewport_distinct:
  "distinct (map fst staged) \<Longrightarrow> distinct (map fst (fold stageViewport vs staged))"
  by (induction vs arbitrary: staged) (simp_all add: stageViewport_def distinct_update)

lemma scanEvent_staged:
  assumes "scanEvent ev st = (st', Returned)"
  shows "winCursorsUpdates st' =
           (case ev of
              Win_viewport args \<Rightarrow> fold stageViewport args (winCursorsUpdates st)
            | _ \<Rightarrow> winCursorsUpdates st)"
  using assms by (cases ev) (auto split: list.splits)

lemma scanBatch_staged:
  assumes "scanBatch batch st = (st', Returned)"
  shows "map_of (winCursorsUpdates st') k =
           (case lastCursorFor k (viewports batch) of
              None \<Rightarrow> map_of (winCursorsUpdates st) k
            | Some p \<Rightarrow> Some p)"
  using assms
proof (induction batch arbitrary: st)
  case Nil
  then show ?case by (simp add: lastCursorFor_def)
next
  case (Cons ev evs)
  obtain st1 out where ev: "scanEvent ev st = (st1, out)"
    by (cases "scanEvent ev st") auto
  with Cons.prems have out: "out = Returned" and rest: "scanBatch evs st1 = (st', Returned)"
    by (cases out; simp)+
  have IH: "map_of (winCursorsUpdates st') k =
              (case lastCursorFor k (viewports evs) of
                 None \<Rightarrow> map_of (winCursorsUpdates st1) k
               | Some p \<Rightarrow> Some p)"
    using rest by (rule Cons.IH)
  have st1: "winCursorsUpdates st1 =
           (case ev of
              Win_viewport args \<Rightarrow> fold stageViewport args (winCursorsUpdates st)
            | _ \<Rightarrow> winCursorsUpdates st)"
    using ev out by (simp add: scanEvent_staged)
  show ?case
  proof (cases ev)
    case (Win_viewport args)
    then show ?thesis
      using IH st1
      by (simp add: lastCursorFor_append fold_stageViewport_map_of split: option.splits)
  qed (use IH st1 in \<open>auto split: option.splits\<close>)
qed

lemma scanBatch_distinct:
  assumes "scanBatch batch st = (st', Returned)" and "distinct (map fst (winCursorsUpdates st))"
  shows "distinct (map fst (winCursorsUpdates st'))"
  using assms
proof (induction batch arbitrary: st)
  case Nil
  then show ?case by simp
next
  case (Cons ev evs)
  obtain st1 out where ev: "scanEvent ev st = (st1, out)"
    by (cases "scanEvent ev st") auto
  with Cons.prems have out: "out = Returned" and rest: "scanBatch evs st1 = (st', Returned)"
    by (cases out; simp)+
  have "winCursorsUpdates st1 =
           (case ev of
              Win_viewport args \<Rightarrow> fold stageViewport args (winCursorsUpdates st)
            | _ \<Rightarrow> winCursorsUpdates st)"
    using ev out by (simp add: scanEvent_staged)
  then have "distinct (map fst (winCursorsUpdates st1))"
    using Cons.prems(2) by (cases ev) (simp_all add: fold_stageViewport_distinct)
  with rest show ?case by (rule Cons.IH)
qed

text \<open>
  C7. In a batch whose scan returns (every \<^verbatim>\<open>mode_info_set\<close> event carries its argument
  tuple), the line and column staged for a window are those of the last viewport tuple
  that names the window, whatever was staged for it earlier in the batch; each window is
  staged once; and the updates queued are exactly those last cursors, for the bound
  windows.
\<close>

theorem handleRedrawBatch_last_viewport_wins:
  assumes "Mode_info_set [] \<notin> set batch"
  shows "snd (snd (snd (handleRedrawBatch c m w batch))) = Returned \<and>
         map_of (winCursorsUpdates
             (fst (scanBatch batch \<lparr>manager = m, window = w, winCursorsUpdates = []\<rparr>))) winId =
           lastCursorFor winId (viewports batch) \<and>
         distinct (map fst (winCursorsUpdates
             (fst (scanBatch batch \<lparr>manager = m, window = w, winCursorsUpdates = []\<rparr>)))) \<and>
         set (queuedUpdates (fst (snd (snd (handleRedrawBatch c m w batch))))) =
           {(editor, l, col). \<exists>winId'. getEditorFromWinId c winId' = Some editor \<and>
              lastCursorFor winId' (viewports batch) = Some (l, col)}"
proof -
  obtain st where scan:
    "scanBatch batch \<lparr>manager = m, window = w, winCursorsUpdates = []\<rparr> = (st, Returned)"
    using scanBatch_completes [OF assms, of "\<lparr>manager = m, window = w, winCursorsUpdates = []\<rparr>"]
    by (cases "scanBatch batch \<lparr>manager = m, window = w, winCursorsUpdates = []\<rparr>") auto
  have staged: "map_of (winCursorsUpdates st) k = lastCursorFor k (viewports batch)" for k
    using scanBatch_staged [OF scan, of k] by (simp split: option.splits)
  have dist: "distinct (map fst (winCursorsUpdates st))"
    using scanBatch_distinct [OF scan] by simp
  have mem: "((k, l, col) \<in> set (winCursorsUpdates st)) =
               (lastCursorFor k (viewports batch) = Some (l, col))" for k l col
    using staged [of k] map_of_eq_Some_iff [OF dist, of k "(l, col)"] by simp
  have "set (queuedUpdates (fst (snd (snd (handleRedrawBatch c m w batch))))) =
          {(editor, l, col). \<exists>winId'. getEditorFromWinId c winId' = Some editor \<and>
              lastCursorFor winId' (viewports batch) = Some (l, col)}"
    by (auto simp: handleRedrawBatch_scanned [OF scan] scheduleUpdates_queued_iff mem)
  then show ?thesis
    using staged dist by (simp add: handleRedrawBatch_scanned [OF scan] scan)
qed

theorem handleRedrawBatch_last_viewport_wins_witness:
  "Mode_info_set [] \<notin> set
     [Win_viewport [WinViewport 2 1000 0 40 5 3],
      Mode_change [(''normal'', 0)],
      Win_viewport [WinViewport 3 1001 0 40 7 0, WinViewport 2 1000 0 40 8 2]] \<and>
   lastCursorFor 1000 (viewports
     [Win_viewport [WinViewport 2 1000 0 40 5 3],
      Mode_change [(''normal'', 0)],
      Win_viewport [WinViewport 3 1001 0 40 7 0, WinViewport 2 1000 0 40 8 2]]) = Some (8, 2) \<and>
   winCursorsUpdates (fst (scanBatch
     [Win_viewport [WinViewport 2 1000 0 40 5 3],
      Mode_change [(''normal'', 0)],
      Win_viewport [WinViewport 3 1001 0 40 7 0, WinViewport 2 1000 0 40 8 2]]
     \<lparr>manager = new_CursorManager, window = example_window, winCursorsUpdates = []\<rparr>)) =
     [(1000, 8, 2), (1001, 7, 0)] \<and>
   queuedUpdates (fst (snd (snd (handleRedrawBatch example_collaborators new_CursorManager
     example_window
     [Win_viewport [WinViewport 2 1000 0 40 5 3],
      Mode_change [(''normal'', 0)],
      Win_viewport [WinViewport 3 1001 0 40 7 0, WinViewport 2 1000 0 40 8 2]])))) =
     [(1, 8, 2)]"
proof -
  let ?batch = "[Win_viewport [WinViewport 2 1000 0 40 5 3],
      Mode_change [(''normal'', 0)],
      Win_viewport [WinViewport 3 1001 0 40 7 0, WinViewport 2 1000 0 40 8 2]]"
  have wf: "Mode_info_set [] \<notin> set ?batch" by simp
  from wf handleRedrawBatch_last_viewport_wins
    [OF wf, of example_collaborators new_CursorManager example_window 1000]
  show ?thesis
    by (simp add: handleRedrawBatch_def stageViewport_def updateCursorStyle_def
        new_CursorManager_def lastCursorFor_def example_collaborators_def)
qed

subsection \<open>The cursor mode mappings\<close>

lemma setCursorMode_dom: "dom (cursorModes m) \<subseteq> dom (cursorModes (setCursorMode mode m))"
  by (auto simp: setCursorMode_def split: option.splits)

lemma fold_setCursorMode_dom:
  "dom (cursorModes m) \<subseteq> dom (cursorModes (fold setCursorMode modes m))"
proof (induction modes arbitrary: m)
  case Nil
  show ?case by simp
next
  case (Cons mode modes)
  have "dom (cursorModes m) \<subseteq> dom (cursorModes (setCursorMode mode m))"
    by (rule setCursorMode_dom)
  also have "\<dots> \<subseteq> dom (cursorModes (fold setCursorMode modes (setCursorMode mode m)))"
    by (rule Cons.IH)
  finally show ?case by simp
qed

lemma scanEvent_dom:
  "dom (cursorModes (manager st)) \<subseteq> dom (cursorModes (manager (fst (scanEvent ev st))))"
proof (cases ev)
  case (Mode_info_set args)
  show ?thesis
  proof (cases args)
    case Nil
    with Mode_info_set show ?thesis by simp
  next
    case (Cons arg others)
    obtain enabled modes where "arg = (enabled, modes)"
      by (cases arg) auto
    with Mode_info_set Cons show ?thesis
      using fold_setCursorMode_dom [of "manager st" modes] by simp
  qed
qed (auto split: list.splits)

lemma scanBatch_dom:
  "dom (cursorModes (manager st)) \<subseteq> dom (cursorModes (manager (fst (scanBatch batch st))))"
proof (induction batch arbitrary: st)
  case Nil
  show ?case by simp
next
  case (Cons ev evs)
  obtain st' out where ev: "scanEvent ev st = (st', out)"
    by (cases "scanEvent ev st") auto
  have step: "dom (cursorModes (manager st)) \<subseteq> dom (cursorModes (manager st'))"
    using scanEvent_dom [of st ev] by (simp add: ev)
  show ?case
  proof (cases out)
    case Returned
    have "dom (cursorModes (manager st')) \<subseteq> dom (cursorModes (manager (fst (scanBatch evs st'))))"
      by (rule Cons.IH)
    with step show ?thesis by (auto simp: ev Returned)
  next
    case (Threw err)
    with step show ?thesis by (simp add: ev)
  qed
qed

text \<open>
  C8, as the code has it. \<open>dispose\<close> disposes of the subscriptions and leaves the cursor
  mode mappings as they are; no operation removes an entry of the mappings: a batch,
  whether its scan returns or throws, only adds entries or overwrites them.
\<close>

theorem cursorModes_never_removed:
  "cursorModes (dispose m) = cursorModes m \<and>
   dom (cursorModes m) \<subseteq> dom (cursorModes (fst (handleRedrawBatch c m w batch)))"
  using scanBatch_dom [of "\<lparr>manager = m, window = w, winCursorsUpdates = []\<rparr>" batch]
  by (simp add: dispose_def handleRedrawBatch_manager)

theorem cursorModes_never_removed_witness:
  "cursorModes (dispose (fst (handleRedrawBatch example_collaborators new_CursorManager
     example_window
     [Mode_info_set [(True, [ModeInfo (Some ''normal'') (Some ''block'')])]]))) =
   cursorModes (fst (handleRedrawBatch example_collaborators new_CursorManager example_window
     [Mode_info_set [(True, [ModeInfo (Some ''normal'') (Some ''block'')])]])) \<and>
   cursorModes (fst (handleRedrawBatch example_collaborators
     (fst (handleRedrawBatch example_collaborators new_CursorManager example_window
        [Mode_info_set [(True, [ModeInfo (Some ''normal'') (Some ''block'')])]]))
     example_window
     [Mode_info_set
        [(True, [ModeInfo (Some ''insert'') (Some ''vertical''), ModeInfo (Some ''bad'') None])],
      Mode_info_set []])) ''normal'' = Some (CursorInfo ''block'')"
  using cursorModes_never_removed
    [of "fst (handleRedrawBatch example_collaborators new_CursorManager example_window
       [Mode_info_set [(True, [ModeInfo (Some ''normal'') (Some ''block'')])]])"]
  by (simp add: handleRedrawBatch_def new_CursorManager_def setCursorMode_def)

text \<open>
  After a mode definition has been stored, disposal disposes of the subscription and the
  mapping is still there.
\<close>

theorem dispose_keeps_cursorModes:
  "cursorModes (dispose (fst (handleRedrawBatch example_collaborators new_CursorManager
     example_window
     [Mode_info_set [(True, [ModeInfo (Some ''normal'') (Some ''block'')])]]))) ''normal'' =
     Some (CursorInfo ''block'') \<and>
   disposables (dispose (fst (handleRedrawBatch example_collaborators new_CursorManager
     example_window
     [Mode_info_set [(True, [ModeInfo (Some ''normal'') (Some ''block'')])]]))) =
     [Disposable True]"
  by (simp add: handleRedrawBatch_def dispose_def new_CursorManager_def setCursorMode_def)

end
